theory Spec2Isabelle
  imports Complex_Main "HOL-Library.Word"
begin

unbundle bit_operations_syntax

section \<open>Conventions\<close>

text \<open>
  The two programs are \<^verbatim>\<open>generate_spiral_csv.py\<close> (the planner: samplers, trajectory
  assembly, CSV export) and \<^verbatim>\<open>rainbow_spiral_offboard_from_csv.py\<close> (the executor).
  Python's \<^verbatim>\<open>float\<close> is read as \<^typ>\<open>real\<close>: arithmetic is exact, rounding is outside
  the model. Python's \<^verbatim>\<open>int\<close> is \<^typ>\<open>int\<close>. Every exception the code can raise is a
  value of \<open>py_error\<close>, and a function that can raise returns a sum whose left
  summand is the exception.
\<close>

datatype py_error =
    KeyError | ValueError | ZeroDivisionError | IndexError
  | OffboardError | LightsError | ActionError | RuntimeError

text \<open>\<^verbatim>\<open>int(x)\<close> on a float truncates towards zero.\<close>

definition py_int :: "real \<Rightarrow> int" where
  "py_int x = (if 0 \<le> x then \<lfloor>x\<rfloor> else \<lceil>x\<rceil>)"

text \<open>\<^verbatim>\<open>range(n)\<close>: empty when \<open>n \<le> 0\<close>.\<close>

definition py_range :: "int \<Rightarrow> int list" where
  "py_range n = [0..n - 1]"

text \<open>\<^verbatim>\<open>xs[i]\<close>: a negative index counts from the end, out of range raises.\<close>

definition py_index :: "'a list \<Rightarrow> int \<Rightarrow> py_error + 'a" where
  "py_index xs i =
     (if 0 \<le> i \<and> i < int (length xs) then Inr (xs ! nat i)
      else if i < 0 \<and> - int (length xs) \<le> i then Inr (xs ! nat (int (length xs) + i))
      else Inl IndexError)"

section \<open>The planner: \<^verbatim>\<open>generate_spiral_csv.py\<close>\<close>

subsection \<open>Configuration\<close>

text \<open>
  The module-level constants of the CONFIG block, as one record; the functions below
  read them from it. \<open>default_config\<close> holds the values of the source.
\<close>

record config =
  h_start :: real
  spiral_height :: real
  turns :: real
  start_radius :: real
  end_radius :: real
  spacing :: real
  move_spacing :: real
  start_angle :: real
  hold_time :: real
  time_step :: real

definition default_config :: config where
  "default_config = \<lparr> h_start = 15, spiral_height = 10, turns = 3, start_radius = 10,
     end_radius = 0, spacing = 3 / 100, move_spacing = 1 / 10, start_angle = 0,
     hold_time = 2, time_step = 1 / 10 \<rparr>"

subsection \<open>Curve evaluation and distance\<close>

type_synonym point = "real \<times> real \<times> real"

definition spiral_position :: "config \<Rightarrow> real \<Rightarrow> point" where
  "spiral_position cfg t =
     (let r = (1 - t) * start_radius cfg + t * end_radius cfg;
          th = - (2 * pi * turns cfg) * t + start_angle cfg
      in (r * cos th, r * sin th, h_start cfg + spiral_height cfg * t))"

text \<open>\<^verbatim>\<open>math.dist\<close> on two triples.\<close>

definition dist3 :: "point \<Rightarrow> point \<Rightarrow> real" where
  "dist3 a b = (case a of (a0, a1, a2) \<Rightarrow> case b of (b0, b1, b2) \<Rightarrow>
     sqrt ((a0 - b0)\<^sup>2 + (a1 - b1)\<^sup>2 + (a2 - b2)\<^sup>2))"

subsection \<open>Move sampling\<close>

text \<open>
  The body of the \<^verbatim>\<open>for i in range(steps + 1)\<close> loop, over the remaining indices.
  \<^verbatim>\<open>i / steps\<close> raises when \<open>steps\<close> is zero.
\<close>

fun move_loop :: "point \<Rightarrow> point \<Rightarrow> int \<Rightarrow> int list \<Rightarrow> point list \<Rightarrow> py_error + point list" where
  "move_loop p0 p1 steps [] pts = Inr pts"
| "move_loop p0 p1 steps (i # rest) pts =
     (if steps = 0 then Inl ZeroDivisionError
      else let t = real_of_int i / real_of_int steps;
               x = fst p0 + (fst p1 - fst p0) * t;
               y = fst (snd p0) + (fst (snd p1) - fst (snd p0)) * t;
               z = snd (snd p0) + (snd (snd p1) - snd (snd p0)) * t
           in move_loop p0 p1 steps rest (pts @ [(x, y, z)]))"

definition generate_move_points :: "point \<Rightarrow> point \<Rightarrow> real \<Rightarrow> py_error + point list" where
  "generate_move_points p0 p1 step_dist =
     (let total = dist3 p0 p1 in
      if total = 0 then Inr [p0]
      else if step_dist = 0 then Inl ZeroDivisionError
      else let steps = py_int (total / step_dist)
           in move_loop p0 p1 steps (py_range (steps + 1)) [])"

subsection \<open>Hold sampling\<close>


subsection \<open>Spiral sampling\<close>

text \<open>
  The inner \<^verbatim>\<open>while True\<close> loop of \<^verbatim>\<open>generate_spiral\<close>, from the increment \<open>dt\<close>.
  It ends in one of two ways: \<open>Some None\<close> is the \<^verbatim>\<open>return pts\<close> taken when the
  candidate parameter exceeds 1, \<open>Some (Some (cand_t, cand))\<close> is the \<^verbatim>\<open>break\<close> after a
  candidate is accepted. The outer \<open>None\<close> is a search that never ends.
\<close>

partial_function (option) spiral_search ::
  "config \<Rightarrow> real \<Rightarrow> point \<Rightarrow> real \<Rightarrow> (real \<times> point) option option" where
  "spiral_search cfg t prev dt =
     (let cand_t = t + dt in
      if cand_t > 1 then Some None
      else let cand = spiral_position cfg cand_t in
        if dist3 prev cand \<ge> spacing cfg then Some (Some (cand_t, cand))
        else spiral_search cfg t prev (dt * (3 / 2)))"

text \<open>
  The condition under which the search goes on to the next increment: the candidate is in
  range and too close to the previous point.
\<close>

definition rejected :: "config \<Rightarrow> real \<Rightarrow> point \<Rightarrow> real \<Rightarrow> bool" where
  "rejected cfg t prev dt \<longleftrightarrow>
     t + dt \<le> 1 \<and> dist3 prev (spiral_position cfg (t + dt)) < spacing cfg"

text \<open>
  Termination of the outer loop rests on what an accepted candidate satisfies, so the
  facts about \<open>spiral_search\<close> come before the outer loop.
\<close>

lemma spiral_search_skip:
  "(\<And>j. j < k \<Longrightarrow> t + dt * (3 / 2) ^ j \<le> 1 \<and>
        dist3 prev (spiral_position cfg (t + dt * (3 / 2) ^ j)) < spacing cfg)
   \<Longrightarrow> spiral_search cfg t prev dt = spiral_search cfg t prev (dt * (3 / 2) ^ k)"
proof (induction k arbitrary: dt)
  case 0
  then show ?case by simp
next
  case (Suc k)
  have first: "t + dt \<le> 1 \<and> dist3 prev (spiral_position cfg (t + dt)) < spacing cfg"
    using Suc.prems [of 0] by simp
  have rest: "\<And>j. j < k \<Longrightarrow> t + dt * (3 / 2) * (3 / 2) ^ j \<le> 1 \<and>
        dist3 prev (spiral_position cfg (t + dt * (3 / 2) * (3 / 2) ^ j)) < spacing cfg"
  proof -
    fix j assume "j < k"
    then show "t + dt * (3 / 2) * (3 / 2) ^ j \<le> 1 \<and>
        dist3 prev (spiral_position cfg (t + dt * (3 / 2) * (3 / 2) ^ j)) < spacing cfg"
      using Suc.prems [of "Suc j"] by (simp add: mult.assoc)
  qed
  have "spiral_search cfg t prev dt = spiral_search cfg t prev (dt * (3 / 2))"
    using first by (subst spiral_search.simps) (simp add: Let_def)
  also have "\<dots> = spiral_search cfg t prev (dt * (3 / 2) * (3 / 2) ^ k)"
    by (rule Suc.IH) (rule rest)
  finally show ?case by (simp add: mult.assoc)
qed

lemma growth_exceeds:
  assumes "0 < (dt::real)"
  shows "\<exists>k. t + dt * (3 / 2) ^ k > 1"
proof -
  obtain k where "(1 - t) / dt < (3 / 2) ^ k"
    using real_arch_pow [of "3 / 2" "(1 - t) / dt"] by auto
  then have "1 - t < dt * (3 / 2) ^ k"
    using assms by (simp add: pos_divide_less_eq mult.commute)
  then show ?thesis by (intro exI [of _ k]) simp
qed

lemma spiral_search_char:
  assumes "0 < dt"
  shows "\<exists>k. (\<forall>j<k. rejected cfg t prev (dt * (3 / 2) ^ j)) \<and>
           \<not> rejected cfg t prev (dt * (3 / 2) ^ k) \<and>
           spiral_search cfg t prev dt =
             (if t + dt * (3 / 2) ^ k > 1 then Some None
              else Some (Some (t + dt * (3 / 2) ^ k, spiral_position cfg (t + dt * (3 / 2) ^ k))))"
proof -
  define k where "k = (LEAST k. \<not> rejected cfg t prev (dt * (3 / 2) ^ k))"
  obtain k0 where "t + dt * (3 / 2) ^ k0 > 1" using growth_exceeds [OF assms] by blast
  then have ex: "\<not> rejected cfg t prev (dt * (3 / 2) ^ k0)" by (simp add: rejected_def)
  have stop: "\<not> rejected cfg t prev (dt * (3 / 2) ^ k)"
    unfolding k_def using ex by (rule LeastI)
  have before: "\<forall>j<k. rejected cfg t prev (dt * (3 / 2) ^ j)"
    unfolding k_def using not_less_Least by blast
  have "spiral_search cfg t prev dt = spiral_search cfg t prev (dt * (3 / 2) ^ k)"
    using before by (intro spiral_search_skip) (simp add: rejected_def)
  also have "\<dots> = (if t + dt * (3 / 2) ^ k > 1 then Some None
              else Some (Some (t + dt * (3 / 2) ^ k, spiral_position cfg (t + dt * (3 / 2) ^ k))))"
    using stop by (subst spiral_search.simps) (auto simp: Let_def rejected_def)
  finally show ?thesis using stop before by blast
qed

lemma spiral_search_accepted:
  assumes "spiral_search cfg t prev dt = Some (Some (ct, c))" and "0 < dt"
  shows "t + dt \<le> ct \<and> ct \<le> 1 \<and> c = spiral_position cfg ct \<and> spacing cfg \<le> dist3 prev c"
proof -
  obtain k where k: "\<not> rejected cfg t prev (dt * (3 / 2) ^ k)"
    "spiral_search cfg t prev dt =
             (if t + dt * (3 / 2) ^ k > 1 then Some None
              else Some (Some (t + dt * (3 / 2) ^ k, spiral_position cfg (t + dt * (3 / 2) ^ k))))"
    using spiral_search_char [OF assms(2)] by blast
  have le: "\<not> t + dt * (3 / 2) ^ k > 1" using k(2) assms(1) by (auto split: if_splits)
  then have eq: "ct = t + dt * (3 / 2) ^ k" "c = spiral_position cfg ct"
    using k(2) assms(1) by auto
  have "(1::real) \<le> (3 / 2) ^ k" by (rule one_le_power) simp
  then have "dt * 1 \<le> dt * (3 / 2) ^ k" using assms(2) by (intro mult_left_mono) auto
  then show ?thesis using le eq k(1) by (auto simp: rejected_def)
qed

text \<open>
  The outer \<^verbatim>\<open>while t < 1.0\<close> loop with the state \<open>(t, prev, pts)\<close>. Each accepted
  candidate moves \<open>t\<close> forward by at least the seed increment and never past 1, which
  bounds the number of rounds.
\<close>

function spiral_outer :: "config \<Rightarrow> real \<Rightarrow> point \<Rightarrow> point list \<Rightarrow> point list option" where
  "spiral_outer cfg t prev pts =
     (if t < 1 then
        (case spiral_search cfg t prev (1 / 10000) of
           None \<Rightarrow> None
         | Some None \<Rightarrow> Some pts
         | Some (Some (cand_t, cand)) \<Rightarrow> spiral_outer cfg cand_t cand (pts @ [cand]))
      else Some pts)"
  by pat_completeness auto
termination
proof (relation "measure (\<lambda>(cfg, t, prev, pts). nat \<lceil>(1 - t) * 10000\<rceil>)")
  show "wf (measure (\<lambda>(cfg, t, prev, pts). nat \<lceil>(1 - t) * 10000\<rceil>))" by simp
next
  fix cfg :: config and t :: real and prev :: point and pts :: "point list"
    and x2 x2a and cand_t :: real and cand :: point
  assume "t < 1" and "spiral_search cfg t prev (1 / 10000) = Some x2" and "x2 = Some x2a"
    and "(cand_t, cand) = x2a"
  then have "spiral_search cfg t prev (1 / 10000) = Some (Some (cand_t, cand))" by simp
  then have "t + 1 / 10000 \<le> cand_t" "cand_t \<le> 1"
    using spiral_search_accepted [of cfg t prev "1 / 10000" cand_t cand] by auto
  then have "(1 - cand_t) * 10000 \<le> (1 - t) * 10000 - 1" by simp
  then have "\<lceil>(1 - cand_t) * 10000\<rceil> \<le> \<lceil>(1 - t) * 10000\<rceil> - 1"
    by (metis ceiling_mono ceiling_diff_one)
  moreover have "0 < \<lceil>(1 - t) * 10000\<rceil>" using \<open>t < 1\<close> by simp
  ultimately show "((cfg, cand_t, cand, pts @ [cand]), cfg, t, prev, pts)
       \<in> measure (\<lambda>(cfg, t, prev, pts). nat \<lceil>(1 - t) * 10000\<rceil>)"
    by simp
qed

text \<open>\<^verbatim>\<open>generate_spiral\<close>; \<open>None\<close> would be a call that never returns.\<close>

definition generate_spiral :: "config \<Rightarrow> point list option" where
  "generate_spiral cfg =
     (let t = 0; prev = spiral_position cfg 0; pts = [prev]
      in spiral_outer cfg t prev pts)"

text \<open>
  The two ways a search from the accepted parameter \<open>t\<close> ends, in terms of the increments
  \<open>0.0001 * 1.5 ^ j\<close> it tries. In an accepted step the first \<open>k\<close> candidates are rejected
  and the next one, at \<open>t'\<close>, is in range and far enough. The search is exhausted when the
  first \<open>k\<close> candidates are rejected and the next one lies past 1.
\<close>

definition accepted_step :: "config \<Rightarrow> real \<Rightarrow> real \<Rightarrow> bool" where
  "accepted_step cfg t t' \<longleftrightarrow>
     (\<exists>k. t' = t + 1 / 10000 * (3 / 2) ^ k \<and> t' \<le> 1 \<and>
          spacing cfg \<le> dist3 (spiral_position cfg t) (spiral_position cfg t') \<and>
          (\<forall>j<k. rejected cfg t (spiral_position cfg t) (1 / 10000 * (3 / 2) ^ j)))"

definition exhausted :: "config \<Rightarrow> real \<Rightarrow> bool" where
  "exhausted cfg t \<longleftrightarrow>
     (\<exists>k. 1 < t + 1 / 10000 * (3 / 2) ^ k \<and>
          (\<forall>j<k. rejected cfg t (spiral_position cfg t) (1 / 10000 * (3 / 2) ^ j)))"

text \<open>
  A configuration for the examples: no radius and no turns, a climb from 0 to 1, spacing
  one half. The curve is the segment from \<open>(0, 0, 0)\<close> to \<open>(0, 0, 1)\<close>.
\<close>

definition straight_config :: config where
  "straight_config = \<lparr> h_start = 0, spiral_height = 1, turns = 0, start_radius = 0,
     end_radius = 0, spacing = 1 / 2, move_spacing = 1 / 10, start_angle = 0,
     hold_time = 2, time_step = 1 / 10 \<rparr>"

subsection \<open>CSV export\<close>

text \<open>
  A CSV cell is text. The model keeps what the text denotes: the decimal text of an
  integer (what \<^verbatim>\<open>str\<close> writes for an \<^verbatim>\<open>int\<close>), the text of a float, or any other text.
  The file is a header line and the data lines.
\<close>

datatype cell = Int_text int | Float_text real | Other_text string

type_synonym color = "real \<times> real \<times> real"

definition mode_colors :: "(int \<times> color) list" where
  "mode_colors =
     [(10, (1, 0, 0)), (20, (1, 1 / 2, 0)), (30, (0, 1, 0)), (40, (0, 1, 1)),
      (50, (0, 0, 1)), (60, (1 / 2, 0, 1 / 2)), (70, (0, 0, 0))]"

text \<open>
  The loop \<^verbatim>\<open>for pts_list, mode in trajectory\<close> that fills \<^verbatim>\<open>all_pts\<close>, \<^verbatim>\<open>all_modes\<close> and
  \<^verbatim>\<open>all_colors\<close>; \<^verbatim>\<open>mode_colors[mode]\<close> raises for a mode without a color.
\<close>

fun flatten_trajectory ::
  "(point list \<times> int) list \<Rightarrow> point list \<times> int list \<times> color list
     \<Rightarrow> py_error + point list \<times> int list \<times> color list" where
  "flatten_trajectory [] acc = Inr acc"
| "flatten_trajectory ((pts_list, mode) # rest) (all_pts, all_modes, all_colors) =
     (case map_of mode_colors mode of
        None \<Rightarrow> Inl KeyError
      | Some col \<Rightarrow>
          flatten_trajectory rest
            (all_pts @ pts_list,
             all_modes @ replicate (length pts_list) mode,
             all_colors @ replicate (length pts_list) col))"

definition csv_header :: "string list" where
  "csv_header = [''index'', ''x'', ''y'', ''z'', ''mode'', ''r'', ''g'', ''b'']"

definition csv_line :: "nat \<times> point \<times> int \<times> color \<Rightarrow> cell list" where
  "csv_line e = (case e of (i, (p0, p1, p2), m, (c0, c1, c2)) \<Rightarrow>
     [Int_text (int i), Float_text p0, Float_text p1, Float_text p2, Int_text m,
      Float_text c0, Float_text c1, Float_text c2])"

definition export_csv :: "(point list \<times> int) list \<Rightarrow> py_error + string list \<times> cell list list" where
  "export_csv trajectory =
     (case flatten_trajectory trajectory ([], [], []) of
        Inl e \<Rightarrow> Inl e
      | Inr (all_pts, all_modes, all_colors) \<Rightarrow>
          Inr (csv_header,
               map csv_line (enumerate 0 (zip all_pts (zip all_modes all_colors)))))"

section \<open>The executor: \<^verbatim>\<open>rainbow_spiral_offboard_from_csv.py\<close>\<close>

subsection \<open>Color interpolation\<close>

definition YAW_ANGLE :: real where
  "YAW_ANGLE = 0"

definition LED_STRIP_LENGTH :: nat where
  "LED_STRIP_LENGTH = 16"

definition NUM_STRIPS :: nat where
  "NUM_STRIPS = 4"

definition RAINBOW_COLORS :: "color list" where
  "RAINBOW_COLORS = [(1, 0, 0), (1, 0, 1), (0, 1, 0), (0, 0, 1)]"

text \<open>The last three lines of \<^verbatim>\<open>interpolate_color\<close>: scale so that the largest channel is 1.\<close>

definition scale_to_max :: "color \<Rightarrow> color" where
  "scale_to_max rgb = (case rgb of (r, g, b) \<Rightarrow>
     (let max_channel = max r (max g b)
      in if max_channel > 0 then (r / max_channel, g / max_channel, b / max_channel)
         else rgb))"

definition interpolate_color :: "int \<Rightarrow> int \<Rightarrow> py_error + color" where
  "interpolate_color idx total_points =
     (let num_segments = int (length RAINBOW_COLORS) - 1;
          t_total = real_of_int idx / real_of_int (max 1 (total_points - 1));
          segment_length = 1 / real_of_int num_segments;
          segment_idx = min (py_int (t_total / segment_length)) (num_segments - 1);
          t_segment = (t_total - real_of_int segment_idx * segment_length) / segment_length
      in case py_index RAINBOW_COLORS segment_idx of
           Inl e \<Rightarrow> Inl e
         | Inr (r0, g0, b0) \<Rightarrow>
             (case py_index RAINBOW_COLORS (segment_idx + 1) of
                Inl e \<Rightarrow> Inl e
              | Inr (r1, g1, b1) \<Rightarrow>
                  Inr (scale_to_max
                    (r0 + (r1 - r0) * t_segment,
                     g0 + (g1 - g0) * t_segment,
                     b0 + (b1 - b0) * t_segment))))"

subsection \<open>Reading the waypoints\<close>

text \<open>
  \<^verbatim>\<open>csv.DictReader\<close> gives one dictionary per data line, keyed by the header.
  \<^verbatim>\<open>float\<close> reads the text of an integer or of a float, \<^verbatim>\<open>int\<close> only that of an integer.
\<close>

type_synonym row = "(string \<times> cell) list"

definition dict_reader :: "string list \<times> cell list list \<Rightarrow> row list" where
  "dict_reader content = (case content of (header, lines) \<Rightarrow> map (zip header) lines)"

definition row_get :: "row \<Rightarrow> string \<Rightarrow> py_error + cell" where
  "row_get r k = (case map_of r k of None \<Rightarrow> Inl KeyError | Some c \<Rightarrow> Inr c)"

fun py_float :: "cell \<Rightarrow> py_error + real" where
  "py_float (Int_text n) = Inr (real_of_int n)"
| "py_float (Float_text x) = Inr x"
| "py_float (Other_text s) = Inl ValueError"

fun py_int_text :: "cell \<Rightarrow> py_error + int" where
  "py_int_text (Int_text n) = Inr n"
| "py_int_text (Float_text x) = Inl ValueError"
| "py_int_text (Other_text s) = Inl ValueError"

definition float_field :: "row \<Rightarrow> string \<Rightarrow> py_error + real" where
  "float_field r k = (case row_get r k of Inl e \<Rightarrow> Inl e | Inr c \<Rightarrow> py_float c)"

definition int_field :: "row \<Rightarrow> string \<Rightarrow> py_error + int" where
  "int_field r k = (case row_get r k of Inl e \<Rightarrow> Inl e | Inr c \<Rightarrow> py_int_text c)"

text \<open>A waypoint is the tuple \<open>(index, px, py, pz, mode)\<close>, its fields read in this order.\<close>

type_synonym waypoint = "real \<times> real \<times> real \<times> real \<times> int"

definition parse_row :: "row \<Rightarrow> py_error + waypoint" where
  "parse_row r =
     (case float_field r ''index'' of
        Inl e \<Rightarrow> Inl e
      | Inr idx \<Rightarrow>
     (case float_field r ''px'' of
        Inl e \<Rightarrow> Inl e
      | Inr px \<Rightarrow>
     (case float_field r ''py'' of
        Inl e \<Rightarrow> Inl e
      | Inr py \<Rightarrow>
     (case float_field r ''pz'' of
        Inl e \<Rightarrow> Inl e
      | Inr pz \<Rightarrow>
     (case int_field r ''mode'' of
        Inl e \<Rightarrow> Inl e
      | Inr m \<Rightarrow> Inr (idx, px, py, pz, m))))))"

fun parse_waypoints :: "row list \<Rightarrow> py_error + waypoint list" where
  "parse_waypoints [] = Inr []"
| "parse_waypoints (r # rows) =
     (case parse_row r of
        Inl e \<Rightarrow> Inl e
      | Inr w \<Rightarrow> (case parse_waypoints rows of Inl e \<Rightarrow> Inl e | Inr ws \<Rightarrow> Inr (w # ws)))"

text \<open>\<^verbatim>\<open>waypoint[1:4]\<close> and \<^verbatim>\<open>waypoint[-1]\<close>.\<close>

definition position :: "waypoint \<Rightarrow> real \<times> real \<times> real" where
  "position w = (case w of (idx, px, py, pz, m) \<Rightarrow> (px, py, pz))"

definition mode_code :: "waypoint \<Rightarrow> int" where
  "mode_code w = (case w of (idx, px, py, pz, m) \<Rightarrow> m)"

subsection \<open>The vehicle\<close>

text \<open>
  The commands \<^verbatim>\<open>run\<close> sends, and the events of a run in the order they happen: a command
  sent, a line printed, the pacing sleep. A printed line keeps its fixed text; the mode
  line also keeps the mode and its description, an error line the exception.
\<close>

datatype command =
    Connect string | Arm | Disarm | Set_position_ned real real real real
  | Offboard_start | Offboard_stop | Land | Follow_flight_mode bool
  | Set_matrix "int list list"

datatype event =
    Call command | Say string | Say_mode int string | Say_error string py_error | Sleep real

text \<open>
  The vehicle answers a command with success or with an exception; the answer may depend
  on everything that happened before. In each of the three \<^verbatim>\<open>async for\<close> waits the awaited
  state either arrives or never does.
\<close>

record drone =
  answer :: "event list \<Rightarrow> command \<Rightarrow> py_error option"
  connection_arrives :: bool
  health_arrives :: bool
  landing_arrives :: bool

text \<open>
  How a run ends: at the end of \<^verbatim>\<open>run\<close>, at the early \<^verbatim>\<open>return\<close> after a refused offboard
  start, with an exception that nothing catches, or never (a wait that does not end).
\<close>

datatype outcome = Returned | Returned_early | Raised py_error | Waits_forever

record exec_state =
  trace :: "event list"
  last_mode :: int
  lights_on :: bool

definition call :: "drone \<Rightarrow> command \<Rightarrow> event list \<Rightarrow> py_error option \<times> event list" where
  "call d c tr = (answer d tr c, tr @ [Call c])"

definition mode_descriptions :: "(int \<times> string) list" where
  "mode_descriptions =
     [(0, ''On the ground''), (10, ''Initial climbing state''),
      (20, ''Initial holding after climb''), (30, ''Moving to start point''),
      (40, ''Holding at start point''), (50, ''Tracing''), (60, ''Holding at end point''),
      (70, ''Returning to home coordinate''), (80, ''Landing'')]"

subsection \<open>One waypoint\<close>

text \<open>The \<^verbatim>\<open>if last_mode != mode_code\<close> block. \<^verbatim>\<open>follow_flight_mode\<close> is awaited bare.\<close>

definition mode_change :: "drone \<Rightarrow> int \<Rightarrow> exec_state \<Rightarrow> py_error option \<times> exec_state" where
  "mode_change d m st =
     (if last_mode st \<noteq> m then
        (case map_of mode_descriptions m of
           None \<Rightarrow> (Some KeyError, st)
         | Some description \<Rightarrow>
             (let st1 = st\<lparr>trace := trace st @ [Say_mode m description], last_mode := m\<rparr> in
              if m = 50 \<and> \<not> lights_on st1 then
                (None, st1\<lparr>trace := trace st1 @ [Say ''-- Turning on tracing lights''],
                            lights_on := True\<rparr>)
              else if m \<noteq> 50 \<and> lights_on st1 then
                (case call d (Follow_flight_mode True)
                        (trace st1 @ [Say ''-- Lights to follow flight mode'']) of
                   (Some e, tr) \<Rightarrow> (Some e, st1\<lparr>trace := tr\<rparr>)
                 | (None, tr) \<Rightarrow> (None, st1\<lparr>trace := tr, lights_on := False\<rparr>))
              else (None, st1)))
      else (None, st))"

text \<open>\<^verbatim>\<open>(int(rgb[0]*255)<<16) | (int(rgb[1]*255)<<8) | (int(rgb[2]*255)<<0)\<close>\<close>

definition color_int :: "color \<Rightarrow> int" where
  "color_int rgb = (case rgb of (r, g, b) \<Rightarrow>
     push_bit 16 (py_int (r * 255)) OR push_bit 8 (py_int (g * 255)) OR push_bit 0 (py_int (b * 255)))"

definition light_matrix :: "color \<Rightarrow> int list list" where
  "light_matrix rgb = replicate NUM_STRIPS (replicate LED_STRIP_LENGTH (color_int rgb))"

text \<open>
  The \<^verbatim>\<open>if mode_code == 50 and i % 10 == 0\<close> block; \<open>i\<close> is the position of the waypoint in
  the list and \<open>total_waypoints\<close> the length of the list. Only \<^verbatim>\<open>LightsError\<close> is caught.
\<close>

definition light_update :: "drone \<Rightarrow> nat \<Rightarrow> nat \<Rightarrow> int \<Rightarrow> exec_state \<Rightarrow> py_error option \<times> exec_state" where
  "light_update d total_waypoints i m st =
     (if m = 50 \<and> i mod 10 = 0 then
        (case interpolate_color (int i) (int total_waypoints) of
           Inl e \<Rightarrow> (Some e, st)
         | Inr rgb \<Rightarrow>
             (case call d (Set_matrix (light_matrix rgb)) (trace st) of
                (None, tr) \<Rightarrow> (None, st\<lparr>trace := tr\<rparr>)
              | (Some e, tr) \<Rightarrow>
                  if e = LightsError
                  then (None, st\<lparr>trace := tr @ [Say_error ''^^ Setting lights failed'' e]\<rparr>)
                  else (Some e, st\<lparr>trace := tr\<rparr>)))
      else (None, st))"

text \<open>The body of \<^verbatim>\<open>for i, waypoint in enumerate(waypoints)\<close>.\<close>

definition visit :: "drone \<Rightarrow> nat \<Rightarrow> nat \<Rightarrow> waypoint \<Rightarrow> exec_state \<Rightarrow> py_error option \<times> exec_state" where
  "visit d total_waypoints i w st =
     (case mode_change d (mode_code w) st of
        (Some e, st1) \<Rightarrow> (Some e, st1)
      | (None, st1) \<Rightarrow>
          (case light_update d total_waypoints i (mode_code w) st1 of
             (Some e, st2) \<Rightarrow> (Some e, st2)
           | (None, st2) \<Rightarrow>
               (case position w of (x, y, z) \<Rightarrow>
                  (case call d (Set_position_ned x y z YAW_ANGLE) (trace st2) of
                     (Some e, tr) \<Rightarrow> (Some e, st2\<lparr>trace := tr\<rparr>)
                   | (None, tr) \<Rightarrow> (None, st2\<lparr>trace := tr @ [Sleep (1 / 10)]\<rparr>)))))"

fun trajectory_loop ::
  "drone \<Rightarrow> nat \<Rightarrow> nat \<Rightarrow> waypoint list \<Rightarrow> exec_state \<Rightarrow> py_error option \<times> exec_state" where
  "trajectory_loop d total_waypoints i [] st = (None, st)"
| "trajectory_loop d total_waypoints i (w # ws) st =
     (case visit d total_waypoints i w st of
        (Some e, st1) \<Rightarrow> (Some e, st1)
      | (None, st1) \<Rightarrow> trajectory_loop d total_waypoints (Suc i) ws st1)"

subsection \<open>The mission\<close>

text \<open>After the last waypoint: land, wait for the ground, stop offboard, disarm.\<close>

definition finish :: "drone \<Rightarrow> event list \<Rightarrow> outcome \<times> event list" where
  "finish d tr0 =
     (case call d Land (tr0 @ [Say ''-- Landing'']) of
        (Some e, tr1) \<Rightarrow> (Raised e, tr1)
      | (None, tr1) \<Rightarrow>
          if \<not> landing_arrives d then (Waits_forever, tr1)
          else
            (case call d Offboard_stop (tr1 @ [Say ''-- Stopping offboard'']) of (r, tr2) \<Rightarrow>
               (let tr3 = (case r of
                             None \<Rightarrow> tr2
                           | Some e \<Rightarrow> tr2 @ [Say_error ''^^ Stopping offboard mode failed with error'' e])
                in case call d Disarm (tr3 @ [Say ''-- Disarming'']) of
                     (Some e, tr4) \<Rightarrow> (Raised e, tr4)
                   | (None, tr4) \<Rightarrow> (Returned, tr4))))"

text \<open>
  From \<^verbatim>\<open>print("-- Starting offboard")\<close> to the end of \<^verbatim>\<open>run\<close>. Only \<^verbatim>\<open>OffboardError\<close> is
  caught at the start; the CSV is read after offboard mode has started.
\<close>

definition fly :: "drone \<Rightarrow> row list \<Rightarrow> event list \<Rightarrow> outcome \<times> event list" where
  "fly d rows tr0 =
     (case call d Offboard_start (tr0 @ [Say ''-- Starting offboard'']) of
        (Some e, tr1) \<Rightarrow>
          if e = OffboardError then
            (case call d Disarm
                    (tr1 @ [Say_error ''^^ Starting offboard mode failed with error code'' e,
                            Say ''-- Disarming'']) of
               (Some e', tr2) \<Rightarrow> (Raised e', tr2)
             | (None, tr2) \<Rightarrow> (Returned_early, tr2))
          else (Raised e, tr1)
      | (None, tr1) \<Rightarrow>
          (case parse_waypoints rows of
             Inl e \<Rightarrow> (Raised e, tr1)
           | Inr waypoints \<Rightarrow>
               (case trajectory_loop d (length waypoints) 0 waypoints
                       \<lparr>trace = tr1 @ [Say ''-- Performing trajectory'', Say ''-- Starting trajectory''],
                        last_mode = 0, lights_on = False\<rparr> of
                  (Some e, st) \<Rightarrow> (Raised e, trace st)
                | (None, st) \<Rightarrow> finish d (trace st))))"

text \<open>
  The start of \<^verbatim>\<open>run\<close>, up to the initial setpoint: connect, the two waits, arm, the
  setpoint \<open>(0, 0, 0, 0)\<close>. The result is \<open>None\<close> with the events so far when the vehicle is
  ready, or the way the run has ended.
\<close>

definition prepare :: "drone \<Rightarrow> string \<Rightarrow> outcome option \<times> event list" where
  "prepare d connection_address =
     (case call d (Connect connection_address) [] of
        (Some e, tr1) \<Rightarrow> (Some (Raised e), tr1)
      | (None, tr1) \<Rightarrow>
          if \<not> connection_arrives d
          then (Some Waits_forever, tr1 @ [Say ''-- Waiting for drone to connect...''])
          else if \<not> health_arrives d
          then (Some Waits_forever,
                tr1 @ [Say ''-- Waiting for drone to connect...'', Say ''-- Connected to drone!'',
                       Say ''-- Waiting for drone to have a global position estimate...''])
          else
            (case call d Arm
                    (tr1 @ [Say ''-- Waiting for drone to connect...'', Say ''-- Connected to drone!'',
                            Say ''-- Waiting for drone to have a global position estimate...'',
                            Say ''-- Global position estimate OK'', Say ''-- Arming'']) of
               (Some e, tr2) \<Rightarrow> (Some (Raised e), tr2)
             | (None, tr2) \<Rightarrow>
                 (case call d (Set_position_ned 0 0 0 0) (tr2 @ [Say ''-- Setting initial setpoint'']) of
                    (Some e, tr3) \<Rightarrow> (Some (Raised e), tr3)
                  | (None, tr3) \<Rightarrow> (None, tr3))))"

definition run :: "drone \<Rightarrow> string \<Rightarrow> row list \<Rightarrow> outcome \<times> event list" where
  "run d connection_address rows =
     (case prepare d connection_address of
        (Some ended, tr) \<Rightarrow> (ended, tr)
      | (None, tr) \<Rightarrow> fly d rows tr)"

subsection \<open>Reading a run\<close>

text \<open>The position setpoints and the light matrices sent during a run, in order.\<close>

fun commanded_positions :: "event list \<Rightarrow> (real \<times> real \<times> real \<times> real) list" where
  "commanded_positions [] = []"
| "commanded_positions (Call (Set_position_ned x y z yaw) # tr) = (x, y, z, yaw) # commanded_positions tr"
| "commanded_positions (e # tr) = commanded_positions tr"

fun pushed_matrices :: "event list \<Rightarrow> int list list list" where
  "pushed_matrices [] = []"
| "pushed_matrices (Call (Set_matrix m) # tr) = m # pushed_matrices tr"
| "pushed_matrices (e # tr) = pushed_matrices tr"

text \<open>Vehicles for the examples: one that accepts every command, and one that refuses a given command.\<close>

definition obedient :: drone where
  "obedient = \<lparr> answer = (\<lambda>tr c. None), connection_arrives = True,
     health_arrives = True, landing_arrives = True \<rparr>"

definition refusing :: "command \<Rightarrow> py_error \<Rightarrow> drone" where
  "refusing c e = obedient \<lparr> answer := (\<lambda>tr c'. if c' = c then Some e else None) \<rparr>"

text \<open>
  A data line as the executor expects it, and a mission of twelve waypoints: eleven in the
  tracing mode, then one in mode 60.
\<close>

definition waypoint_row :: "int \<Rightarrow> real \<Rightarrow> real \<Rightarrow> real \<Rightarrow> int \<Rightarrow> row" where
  "waypoint_row i x y z m =
     [(''index'', Int_text i), (''px'', Float_text x), (''py'', Float_text y),
      (''pz'', Float_text z), (''mode'', Int_text m)]"

definition tracing_rows :: "row list" where
  "tracing_rows =
     map (\<lambda>i. waypoint_row i 0 0 (real_of_int i) 50) [0, 1, 2, 3, 4, 5, 6, 7, 8, 9, 10] @
     [waypoint_row 11 0 0 11 60]"

section \<open>Properties of the samplers\<close>

subsection \<open>Move sampling\<close>

lemma move_loop_ok:
  "steps \<noteq> 0 \<Longrightarrow> move_loop p0 p1 steps is pts =
     Inr (pts @ map (\<lambda>i. (fst p0 + (fst p1 - fst p0) * (real_of_int i / real_of_int steps),
                            fst (snd p0) + (fst (snd p1) - fst (snd p0)) * (real_of_int i / real_of_int steps),
                            snd (snd p0) + (snd (snd p1) - snd (snd p0)) * (real_of_int i / real_of_int steps))) is)"
  by (induction "is" arbitrary: pts) (simp_all add: Let_def)

lemma dist3_nonneg: "0 \<le> dist3 a b"
  by (simp add: dist3_def split: prod.splits)

lemma dist3_axis: "dist3 (a0, a1, a2) (a0, a1, b2) = \<bar>a2 - b2\<bar>"
  by (simp add: dist3_def)

text \<open>
  Where the distance is at least the step distance, the sampler returns \<open>steps + 1\<close>
  points, from \<open>p0\<close> to \<open>p1\<close>, the point at place \<open>i\<close> being the interpolation at
  \<open>i / steps\<close>.
\<close>

lemma generate_move_points_endpoints:
  assumes "0 < step_dist" and "step_dist \<le> dist3 p0 p1"
  shows "\<exists>pts. generate_move_points p0 p1 step_dist = Inr pts \<and>
           int (length pts) = \<lfloor>dist3 p0 p1 / step_dist\<rfloor> + 1 \<and>
           hd pts = p0 \<and> last pts = p1 \<and>
           (\<forall>i<length pts. pts ! i =
              (fst p0 + (fst p1 - fst p0) * (real i / real_of_int \<lfloor>dist3 p0 p1 / step_dist\<rfloor>),
               fst (snd p0) + (fst (snd p1) - fst (snd p0)) * (real i / real_of_int \<lfloor>dist3 p0 p1 / step_dist\<rfloor>),
               snd (snd p0) + (snd (snd p1) - snd (snd p0)) * (real i / real_of_int \<lfloor>dist3 p0 p1 / step_dist\<rfloor>)))"
proof -
  define steps where "steps = \<lfloor>dist3 p0 p1 / step_dist\<rfloor>"
  define f where "f = (\<lambda>i. (fst p0 + (fst p1 - fst p0) * (real_of_int i / real_of_int steps),
                            fst (snd p0) + (fst (snd p1) - fst (snd p0)) * (real_of_int i / real_of_int steps),
                            snd (snd p0) + (snd (snd p1) - snd (snd p0)) * (real_of_int i / real_of_int steps)))"
  have "1 \<le> dist3 p0 p1 / step_dist" using assms by simp
  then have pos: "1 \<le> steps" by (simp add: steps_def le_floor_iff)
  have trunc: "py_int (dist3 p0 p1 / step_dist) = steps"
    using assms dist3_nonneg [of p0 p1] by (simp add: py_int_def steps_def)
  have "dist3 p0 p1 \<noteq> 0" using assms by auto
  then have gen: "generate_move_points p0 p1 step_dist = Inr (map f [0..steps])"
    using assms pos trunc
    by (simp add: generate_move_points_def Let_def py_range_def move_loop_ok f_def)
  have len: "int (length (map f [0..steps])) = steps + 1" using pos by simp
  have "[0..steps] = 0 # [1..steps]" using pos by (simp add: upto_rec1)
  then have hd: "hd (map f [0..steps]) = p0" by (simp add: f_def)
  have "[0..steps] = [0..steps - 1] @ [steps]" using pos by (simp add: upto_rec2)
  then have "last (map f [0..steps]) = f steps" by simp
  then have last: "last (map f [0..steps]) = p1" using pos by (simp add: f_def)
  have nth: "map f [0..steps] ! i = f (int i)" if "i < length (map f [0..steps])" for i
    using that by simp
  show ?thesis
    using gen len hd last nth by (auto simp: f_def steps_def)
qed


text \<open>
  C4. The claim: for distinct endpoints and a positive spacing the move sampler returns a
  list from \<open>p0\<close> to \<open>p1\<close>. The code guards only the distance 0. A move of 0.05 at the
  spacing 0.1 (the spacing of the source) gives \<open>steps = 0\<close>, and the first \<^verbatim>\<open>i / steps\<close>
  raises: no list is returned.
\<close>

theorem move_to_near_point_raises:
  "generate_move_points (0, 0, 15) (0, 0, 15 + 1 / 20) (move_spacing default_config)
     = Inl ZeroDivisionError"
  by (simp add: generate_move_points_def dist3_axis py_int_def py_range_def default_config_def)

text \<open>
  C5. For a positive step distance: when the endpoints are a positive distance apart that
  is below the step distance, the step count is 0 and the sampler raises
  \<^verbatim>\<open>ZeroDivisionError\<close>; and the sampler returns a list exactly when the distance is 0 or
  at least the step distance.
\<close>

theorem generate_move_points_short_segment:
  assumes "0 < step_dist"
  shows "(0 < dist3 p0 p1 \<and> dist3 p0 p1 < step_dist \<longrightarrow>
            py_int (dist3 p0 p1 / step_dist) = 0 \<and>
            generate_move_points p0 p1 step_dist = Inl ZeroDivisionError) \<and>
         ((\<exists>pts. generate_move_points p0 p1 step_dist = Inr pts) \<longleftrightarrow>
            dist3 p0 p1 = 0 \<or> step_dist \<le> dist3 p0 p1)"
proof -
  have short: "py_int (dist3 p0 p1 / step_dist) = 0 \<and>
      generate_move_points p0 p1 step_dist = Inl ZeroDivisionError"
    if "0 < dist3 p0 p1" "dist3 p0 p1 < step_dist"
  proof -
    have "0 \<le> dist3 p0 p1 / step_dist" "dist3 p0 p1 / step_dist < 1"
      using that assms by simp_all
    then have "py_int (dist3 p0 p1 / step_dist) = 0"
      by (simp add: py_int_def floor_eq_iff)
    then show ?thesis
      using that assms by (simp add: generate_move_points_def py_range_def)
  qed
  have long: "\<exists>pts. generate_move_points p0 p1 step_dist = Inr pts"
    if "step_dist \<le> dist3 p0 p1"
  proof -
    have "1 \<le> dist3 p0 p1 / step_dist" using that assms by simp
    then have "1 \<le> py_int (dist3 p0 p1 / step_dist)"
      by (simp add: py_int_def le_floor_iff)
    then show ?thesis
      using that assms by (simp add: generate_move_points_def Let_def move_loop_ok)
  qed
  have zero: "\<exists>pts. generate_move_points p0 p1 step_dist = Inr pts" if "dist3 p0 p1 = 0"
    using that by (simp add: generate_move_points_def)
  show ?thesis
    using short long zero dist3_nonneg [of p0 p1]
    by (metis Inl_Inr_False less_eq_real_def not_le)
qed

theorem generate_move_points_short_segment_witness:
  "(0::real) < 1 / 10 \<and> 0 < dist3 (0, 0, 0) (0, 0, 1 / 20) \<and>
   dist3 (0, 0, 0) (0, 0, 1 / 20) < 1 / 10 \<and>
   py_int (dist3 (0, 0, 0) (0, 0, 1 / 20) / (1 / 10)) = 0 \<and>
   generate_move_points (0, 0, 0) (0, 0, 1 / 20) (1 / 10) = Inl ZeroDivisionError \<and>
   (\<exists>pts. generate_move_points (0, 0, 0) (0, 0, 3) 1 = Inr pts)"
proof -
  have a: "(0::real) < 1 / 10" by simp
  have b: "0 < dist3 (0, 0, 0) (0, 0, 1 / 20) \<and> dist3 (0, 0, 0) (0, 0, 1 / 20) < 1 / 10"
    by (simp add: dist3_axis)
  have c: "dist3 (0, 0, 0) (0, 0, 3) = 0 \<or> 1 \<le> dist3 (0, 0, 0) (0, 0, 3)"
    by (simp add: dist3_axis)
  show ?thesis
    using a b c generate_move_points_short_segment [OF a, of "(0, 0, 0)" "(0, 0, 1 / 20)"]
      generate_move_points_short_segment [of 1 "(0, 0, 0)" "(0, 0, 3)"]
    by simp
qed

subsection \<open>Hold sampling\<close>




subsection \<open>Spiral sampling\<close>

lemma accepted_step_bounds: "accepted_step cfg t t' \<Longrightarrow> t < t' \<and> t' \<le> 1"
  by (auto simp: accepted_step_def)

lemma spiral_outer_run:
  "t \<le> 1 \<Longrightarrow> prev = spiral_position cfg t \<Longrightarrow>
     \<exists>ts. spiral_outer cfg t prev pts = Some (pts @ map (spiral_position cfg) ts) \<and>
          successively (accepted_step cfg) (t # ts) \<and> exhausted cfg (last (t # ts))"
proof (induction cfg t prev pts rule: spiral_outer.induct)
  case (1 cfg t prev pts)
  show ?case
  proof (cases "t < 1")
    case False
    then have "t = 1" using "1.prems" by simp
    then have "exhausted cfg t"
      unfolding exhausted_def by (intro exI [of _ 0]) simp
    moreover have "spiral_outer cfg t prev pts = Some pts" using False by simp
    ultimately show ?thesis by (intro exI [of _ "[]"]) simp
  next
    case True
    obtain k where before: "\<forall>j<k. rejected cfg t prev (1 / 10000 * (3 / 2) ^ j)"
      and stop: "\<not> rejected cfg t prev (1 / 10000 * (3 / 2) ^ k)"
      and res: "spiral_search cfg t prev (1 / 10000) =
             (if t + 1 / 10000 * (3 / 2) ^ k > 1 then Some None
              else Some (Some (t + 1 / 10000 * (3 / 2) ^ k,
                     spiral_position cfg (t + 1 / 10000 * (3 / 2) ^ k))))"
      using spiral_search_char [of "1 / 10000" cfg t prev] by auto
    show ?thesis
    proof (cases "t + 1 / 10000 * (3 / 2) ^ k > 1")
      case past: True
      then have "exhausted cfg t"
        unfolding exhausted_def using before "1.prems" by (intro exI [of _ k]) simp
      moreover have "spiral_outer cfg t prev pts = Some pts"
        using True past res by simp
      ultimately show ?thesis by (intro exI [of _ "[]"]) simp
    next
      case inside: False
      define ct where "ct = t + 1 / 10000 * (3 / 2) ^ k"
      have s: "spiral_search cfg t prev (1 / 10000) = Some (Some (ct, spiral_position cfg ct))"
        using res inside by (simp add: ct_def)
      have le: "ct \<le> 1" using inside by (simp add: ct_def)
      have far: "spacing cfg \<le> dist3 prev (spiral_position cfg ct)"
        using stop inside by (simp add: rejected_def ct_def)
      have step: "accepted_step cfg t ct"
        unfolding accepted_step_def using before far le "1.prems"
        by (intro exI [of _ k]) (simp add: ct_def)
      obtain ts where
        r: "spiral_outer cfg ct (spiral_position cfg ct) (pts @ [spiral_position cfg ct]) =
              Some ((pts @ [spiral_position cfg ct]) @ map (spiral_position cfg) ts)"
        and c: "successively (accepted_step cfg) (ct # ts)"
        and e: "exhausted cfg (last (ct # ts))"
        using "1.IH" [OF True s refl refl le refl] by blast
      have "spiral_outer cfg t prev pts = Some (pts @ map (spiral_position cfg) (ct # ts))"
        using True s r by simp
      moreover have "successively (accepted_step cfg) (t # ct # ts)" using step c by simp
      moreover have "exhausted cfg (last (t # ct # ts))" using e by simp
      ultimately show ?thesis by blast
    qed
  qed
qed

lemma straight_position: "spiral_position straight_config t = (0, 0, t)"
  by (simp add: spiral_position_def straight_config_def)

lemma straight_spacing: "spacing straight_config = 1 / 2"
  by (simp add: straight_config_def)

lemma straight_run:
  "generate_spiral straight_config = Some [(0, 0, 0), (0, 0, 31381059609 / 41943040000)]"
  by (simp add: generate_spiral_def spiral_search.simps straight_position dist3_axis
      straight_spacing Let_def)


text \<open>
  C10. The spiral sampler returns a list for every configuration, so for every positive
  spacing. The list holds the curve at parameters \<open>ts\<close> that start at 0 and stay in
  \<open>[0, 1]\<close>. Each parameter comes from the one before by an accepted step: the increment
  grows from the seed 0.0001 by the factor 1.5 while the candidate is in range and too
  close, and the first candidate that is in range and far enough is taken. The list is
  returned when the search from the last parameter is exhausted: its candidates are
  rejected until one lies past 1. No candidate lies past 1 before that. (The guard of the
  outer loop can only fail at the parameter 1, where the seed candidate is already past 1.)
\<close>

theorem spiral_sampler_terminates:
  "\<exists>ts. generate_spiral cfg = Some (map (spiral_position cfg) ts) \<and>
        ts \<noteq> [] \<and> hd ts = 0 \<and> (\<forall>t\<in>set ts. 0 \<le> t \<and> t \<le> 1) \<and>
        successively (accepted_step cfg) ts \<and> exhausted cfg (last ts)"
proof -
  obtain ts where r: "spiral_outer cfg 0 (spiral_position cfg 0) [spiral_position cfg 0] =
        Some ([spiral_position cfg 0] @ map (spiral_position cfg) ts)"
    and c: "successively (accepted_step cfg) (0 # ts)"
    and e: "exhausted cfg (last (0 # ts))"
    using spiral_outer_run [of 0 "spiral_position cfg 0" cfg "[spiral_position cfg 0]"] by auto
  have bounds: "\<forall>u\<in>set us. t0 \<le> u \<and> u \<le> 1"
    if "successively (accepted_step cfg) (t0 # us)" for t0 us
    using that
  proof (induction us arbitrary: t0)
    case Nil
    then show ?case by simp
  next
    case (Cons u us)
    then have "t0 < u \<and> u \<le> 1" "successively (accepted_step cfg) (u # us)"
      using accepted_step_bounds by auto
    then show ?case using Cons.IH [of u] by fastforce
  qed
  have "generate_spiral cfg = Some (map (spiral_position cfg) (0 # ts))"
    using r by (simp add: generate_spiral_def)
  moreover have "\<forall>t\<in>set (0 # ts). 0 \<le> t \<and> t \<le> 1" using bounds [OF c] by simp
  ultimately show ?thesis using c e by (intro exI [of _ "0 # ts"]) simp
qed

theorem spiral_sampler_terminates_witness:
  "generate_spiral straight_config =
     Some (map (spiral_position straight_config) [0, 31381059609 / 41943040000]) \<and>
   (0::real) \<le> 31381059609 / 41943040000 \<and> (31381059609 / 41943040000 :: real) \<le> 1 \<and>
   accepted_step straight_config 0 (31381059609 / 41943040000) \<and>
   exhausted straight_config (31381059609 / 41943040000)"
proof -
  obtain ts where g: "generate_spiral straight_config = Some (map (spiral_position straight_config) ts)"
    and b: "\<forall>t\<in>set ts. 0 \<le> t \<and> t \<le> 1"
    and c: "successively (accepted_step straight_config) ts"
    and e: "exhausted straight_config (last ts)"
    using spiral_sampler_terminates [of straight_config] by blast
  have "map (spiral_position straight_config) ts = [(0, 0, 0), (0, 0, 31381059609 / 41943040000)]"
    using g straight_run by simp
  then have ts: "ts = [0, 31381059609 / 41943040000]"
    by (auto simp: straight_position map_eq_Cons_conv)
  show ?thesis using g b c e unfolding ts by simp
qed

text \<open>
  C9. The list the spiral sampler returns starts with the curve at parameter 0, and any
  two consecutive points of it are at least the configured spacing apart.
\<close>

theorem spiral_points_spaced:
  "\<exists>pts. generate_spiral cfg = Some pts \<and> pts \<noteq> [] \<and> hd pts = spiral_position cfg 0 \<and>
         successively (\<lambda>a b. spacing cfg \<le> dist3 a b) pts"
proof -
  obtain ts where r: "spiral_outer cfg 0 (spiral_position cfg 0) [spiral_position cfg 0] =
        Some ([spiral_position cfg 0] @ map (spiral_position cfg) ts)"
    and c: "successively (accepted_step cfg) (0 # ts)"
    using spiral_outer_run [of 0 "spiral_position cfg 0" cfg "[spiral_position cfg 0]"] by auto
  have "successively (\<lambda>t t'. spacing cfg \<le> dist3 (spiral_position cfg t) (spiral_position cfg t')) (0 # ts)"
    using c by (rule successively_mono) (auto simp: accepted_step_def)
  then have "successively (\<lambda>a b. spacing cfg \<le> dist3 a b) (map (spiral_position cfg) (0 # ts))"
    by (simp only: successively_map)
  moreover have "generate_spiral cfg = Some (map (spiral_position cfg) (0 # ts))"
    using r by (simp add: generate_spiral_def)
  ultimately show ?thesis by (intro exI [of _ "map (spiral_position cfg) (0 # ts)"]) simp
qed


theorem spiral_points_spaced_witness:
  "generate_spiral straight_config = Some [(0, 0, 0), (0, 0, 31381059609 / 41943040000)] \<and>
   hd [(0, 0, 0), (0, 0, 31381059609 / 41943040000 :: real)] = spiral_position straight_config 0 \<and>
   spacing straight_config \<le> dist3 (0, 0, 0) (0, 0, 31381059609 / 41943040000)"
proof -
  obtain pts where g: "generate_spiral straight_config = Some pts"
    and h: "hd pts = spiral_position straight_config 0"
    and s: "successively (\<lambda>a b. spacing straight_config \<le> dist3 a b) pts"
    using spiral_points_spaced [of straight_config] by blast
  have pts: "pts = [(0, 0, 0), (0, 0, 31381059609 / 41943040000)]"
    using g straight_run by simp
  show ?thesis using g h s unfolding pts by simp
qed


section \<open>Properties of the executor\<close>

subsection \<open>Color interpolation\<close>



subsection \<open>What a run sends\<close>

lemmas exec_defs = run_def prepare_def fly_def finish_def call_def visit_def mode_change_def
  light_update_def obedient_def refusing_def waypoint_row_def parse_row_def float_field_def
  int_field_def row_get_def position_def mode_code_def mode_descriptions_def YAW_ANGLE_def

lemma commanded_positions_append:
  "commanded_positions (xs @ ys) = commanded_positions xs @ commanded_positions ys"
  by (induction xs rule: commanded_positions.induct) simp_all

lemma pushed_matrices_append:
  "pushed_matrices (xs @ ys) = pushed_matrices xs @ pushed_matrices ys"
  by (induction xs rule: pushed_matrices.induct) simp_all

lemma mode_change_sends:
  "mode_change d m st = (r, st') \<Longrightarrow>
     commanded_positions (trace st') = commanded_positions (trace st) \<and>
     pushed_matrices (trace st') = pushed_matrices (trace st)"
  by (auto simp: mode_change_def call_def Let_def commanded_positions_append pushed_matrices_append
      split: if_splits option.splits)

lemma light_update_sends:
  "light_update d n i m st = (None, st') \<Longrightarrow>
     commanded_positions (trace st') = commanded_positions (trace st) \<and>
     map Inr (pushed_matrices (trace st')) = map Inr (pushed_matrices (trace st)) @
       (if m = 50 \<and> i mod 10 = 0
        then [map_sum id light_matrix (interpolate_color (int i) (int n))] else [])"
  by (auto simp: light_update_def call_def commanded_positions_append pushed_matrices_append
      split: if_splits option.splits sum.splits)

lemma visit_sends:
  assumes "visit d n i w st = (None, st')"
  shows "commanded_positions (trace st') = commanded_positions (trace st) @
           [(fst (position w), fst (snd (position w)), snd (snd (position w)), YAW_ANGLE)] \<and>
         map Inr (pushed_matrices (trace st')) = map Inr (pushed_matrices (trace st)) @
           (if mode_code w = 50 \<and> i mod 10 = 0
            then [map_sum id light_matrix (interpolate_color (int i) (int n))] else [])"
proof -
  obtain st1 where 1: "mode_change d (mode_code w) st = (None, st1)"
    using assms by (auto simp: visit_def split: prod.splits option.splits)
  obtain st2 where 2: "light_update d n i (mode_code w) st1 = (None, st2)"
    using assms 1 by (auto simp: visit_def split: prod.splits option.splits)
  have 3: "trace st' = trace st2 @
      [Call (Set_position_ned (fst (position w)) (fst (snd (position w))) (snd (snd (position w))) YAW_ANGLE),
       Sleep (1 / 10)]"
    using assms 1 2 by (auto simp: visit_def call_def split: prod.splits option.splits)
  show ?thesis
    using mode_change_sends [OF 1] light_update_sends [OF 2] 3
    by (simp add: commanded_positions_append pushed_matrices_append)
qed

lemma trajectory_loop_sends:
  "trajectory_loop d n i ws st = (None, st') \<Longrightarrow>
     commanded_positions (trace st') = commanded_positions (trace st) @
       map (\<lambda>w. (fst (position w), fst (snd (position w)), snd (snd (position w)), YAW_ANGLE)) ws \<and>
     map Inr (pushed_matrices (trace st')) = map Inr (pushed_matrices (trace st)) @
       [map_sum id light_matrix (interpolate_color (int j) (int n)).
          (j, w) \<leftarrow> enumerate i ws, mode_code w = 50 \<and> j mod 10 = 0]"
proof (induction ws arbitrary: i st)
  case Nil
  then show ?case by simp
next
  case (Cons w ws)
  obtain st1 where 1: "visit d n i w st = (None, st1)"
    and 2: "trajectory_loop d n (Suc i) ws st1 = (None, st')"
    using Cons.prems by (auto split: prod.splits option.splits)
  show ?case
    using visit_sends [OF 1] Cons.IH [OF 2] by simp
qed


lemma prepare_sends: "prepare d a = (None, tr0) \<Longrightarrow>
    commanded_positions tr0 = [(0, 0, 0, 0)] \<and> pushed_matrices tr0 = [] \<and>
    Call Land \<notin> set tr0 \<and> Call Offboard_stop \<notin> set tr0"
  by (auto simp: prepare_def call_def split: option.splits if_splits)

lemma prepare_ended: "prepare d a = (Some out, tr) \<Longrightarrow> out \<noteq> Returned"
  by (auto simp: prepare_def call_def split: option.splits if_splits)

lemma finish_sends: "finish d tr0 = (out, tr) \<Longrightarrow>
    commanded_positions tr = commanded_positions tr0 \<and> pushed_matrices tr = pushed_matrices tr0"
  by (auto simp: finish_def call_def Let_def commanded_positions_append pushed_matrices_append
      split: option.splits if_splits)

lemma run_returned:
  assumes "run d a rows = (Returned, tr)"
  shows "\<exists>wps. parse_waypoints rows = Inr wps \<and>
     commanded_positions tr = (0, 0, 0, 0) #
       map (\<lambda>w. (fst (position w), fst (snd (position w)), snd (snd (position w)), YAW_ANGLE)) wps \<and>
     map Inr (pushed_matrices tr) =
       [map_sum id light_matrix (interpolate_color (int j) (int (length wps))).
          (j, w) \<leftarrow> enumerate 0 wps, mode_code w = 50 \<and> j mod 10 = 0]"
proof -
  obtain tr0 where p: "prepare d a = (None, tr0)" and f: "fly d rows tr0 = (Returned, tr)"
    using assms by (auto simp: run_def split: prod.splits option.splits dest: prepare_ended)
  obtain wps where w: "parse_waypoints rows = Inr wps"
    using f by (auto simp: fly_def call_def split: option.splits if_splits sum.splits)
  obtain st where l: "trajectory_loop d (length wps) 0 wps
        \<lparr>trace = tr0 @ [Say ''-- Starting offboard'', Call Offboard_start,
                   Say ''-- Performing trajectory'', Say ''-- Starting trajectory''],
         last_mode = 0, lights_on = False\<rparr> = (None, st)"
    and e: "finish d (trace st) = (Returned, tr)"
    using f w by (auto simp: fly_def call_def split: option.splits if_splits prod.splits)
  show ?thesis
    using w prepare_sends [OF p] trajectory_loop_sends [OF l] finish_sends [OF e]
    by (simp add: commanded_positions_append pushed_matrices_append)
qed

lemma parse_waypoints_fields:
  "parse_waypoints rows = Inr wps \<Longrightarrow>
     list_all2 (\<lambda>r w. float_field r ''px'' = Inr (fst (position w)) \<and>
                      float_field r ''py'' = Inr (fst (snd (position w))) \<and>
                      float_field r ''pz'' = Inr (snd (snd (position w))) \<and>
                      int_field r ''mode'' = Inr (mode_code w)) rows wps"
proof (induction rows arbitrary: wps)
  case Nil
  then show ?case by simp
next
  case (Cons r rows)
  then show ?case
    by (auto simp: parse_row_def position_def mode_code_def split: sum.splits)
qed

text \<open>
  C1, as amended. The executor reads the position of a waypoint from the fields \<open>px\<close>,
  \<open>py\<close>, \<open>pz\<close> of its record: in a run that reaches its end, the setpoints sent are the
  initial one and then, for the record at place \<open>i\<close>, the setpoint
  \<open>(px, py, pz, YAW_ANGLE)\<close> of that record, in order.
\<close>

theorem position_commands_from_px_py_pz:
  assumes "run d a rows = (Returned, tr)"
  shows "length (commanded_positions tr) = Suc (length rows) \<and>
         (\<forall>i<length rows. \<exists>x y z.
            float_field (rows ! i) ''px'' = Inr x \<and>
            float_field (rows ! i) ''py'' = Inr y \<and>
            float_field (rows ! i) ''pz'' = Inr z \<and>
            commanded_positions tr ! Suc i = (x, y, z, YAW_ANGLE))"
proof -
  obtain wps where w: "parse_waypoints rows = Inr wps"
    and c: "commanded_positions tr = (0, 0, 0, 0) #
       map (\<lambda>w. (fst (position w), fst (snd (position w)), snd (snd (position w)), YAW_ANGLE)) wps"
    using run_returned [OF assms] by blast
  have r: "list_all2 (\<lambda>r w. float_field r ''px'' = Inr (fst (position w)) \<and>
                      float_field r ''py'' = Inr (fst (snd (position w))) \<and>
                      float_field r ''pz'' = Inr (snd (snd (position w))) \<and>
                      int_field r ''mode'' = Inr (mode_code w)) rows wps"
    using parse_waypoints_fields [OF w] .
  have len: "length rows = length wps" using r by (rule list_all2_lengthD)
  show ?thesis
  proof (intro conjI allI impI)
    show "length (commanded_positions tr) = Suc (length rows)" using c len by simp
  next
    fix i assume i: "i < length rows"
    then have "float_field (rows ! i) ''px'' = Inr (fst (position (wps ! i))) \<and>
               float_field (rows ! i) ''py'' = Inr (fst (snd (position (wps ! i)))) \<and>
               float_field (rows ! i) ''pz'' = Inr (snd (snd (position (wps ! i))))"
      using r by (simp add: list_all2_conv_all_nth)
    moreover have "commanded_positions tr ! Suc i =
        (fst (position (wps ! i)), fst (snd (position (wps ! i))), snd (snd (position (wps ! i))), YAW_ANGLE)"
      using c i len by simp
    ultimately show "\<exists>x y z.
            float_field (rows ! i) ''px'' = Inr x \<and>
            float_field (rows ! i) ''py'' = Inr y \<and>
            float_field (rows ! i) ''pz'' = Inr z \<and>
            commanded_positions tr ! Suc i = (x, y, z, YAW_ANGLE)"
      by blast
  qed
qed

theorem position_commands_from_px_py_pz_witness:
  "run obedient ''udp://:14540'' [waypoint_row 0 1 2 3 10, waypoint_row 1 4 5 6 10] =
     (Returned, snd (run obedient ''udp://:14540'' [waypoint_row 0 1 2 3 10, waypoint_row 1 4 5 6 10])) \<and>
   length (commanded_positions
     (snd (run obedient ''udp://:14540'' [waypoint_row 0 1 2 3 10, waypoint_row 1 4 5 6 10]))) = 3 \<and>
   commanded_positions
     (snd (run obedient ''udp://:14540'' [waypoint_row 0 1 2 3 10, waypoint_row 1 4 5 6 10])) ! 2
     = (4, 5, 6, 0)"
proof -
  let ?rows = "[waypoint_row 0 1 2 3 10, waypoint_row 1 4 5 6 10]"
  have "fst (run obedient ''udp://:14540'' ?rows) = Returned"
    by (simp add: exec_defs)
  then have r: "run obedient ''udp://:14540'' ?rows =
      (Returned, snd (run obedient ''udp://:14540'' ?rows))"
    by (simp add: prod_eq_iff)
  have f: "float_field (?rows ! 1) ''px'' = Inr 4 \<and> float_field (?rows ! 1) ''py'' = Inr 5 \<and>
           float_field (?rows ! 1) ''pz'' = Inr 6"
    by (simp add: waypoint_row_def float_field_def row_get_def)
  note t = position_commands_from_px_py_pz [OF r]
  have len: "length (commanded_positions (snd (run obedient ''udp://:14540'' ?rows))) = 3"
    using t by simp
  have "\<exists>x y z. float_field (?rows ! 1) ''px'' = Inr x \<and> float_field (?rows ! 1) ''py'' = Inr y \<and>
            float_field (?rows ! 1) ''pz'' = Inr z \<and>
            commanded_positions (snd (run obedient ''udp://:14540'' ?rows)) ! Suc 1 = (x, y, z, YAW_ANGLE)"
    by (rule t [THEN conjunct2, rule_format]) simp
  then have "commanded_positions (snd (run obedient ''udp://:14540'' ?rows)) ! 2 = (4, 5, 6, 0)"
    using f by (auto simp: YAW_ANGLE_def numeral_2_eq_2)
  then show ?thesis using r len by simp
qed

text \<open>
  Whatever the trajectory, the first record of a non-empty export has no field \<open>px\<close>.
\<close>

lemma exported_records_lack_px:
  assumes "export_csv trajectory = Inr (header, line # lines)"
  shows "parse_waypoints (dict_reader (header, line # lines)) = Inl KeyError"
proof -
  have "\<exists>es. header = csv_header \<and> line # lines = map csv_line es"
    using assms by (simp add: export_csv_def split: sum.splits prod.splits) metis
  then obtain es where h: "header = csv_header" and l: "line # lines = map csv_line es"
    by (elim exE conjE)
  obtain e es' where "es = e # es'" and "line = csv_line e"
    using l by (cases es) auto
  then obtain i p0 p1 p2 m c0 c1 c2 where
    "line = [Int_text (int i), Float_text p0, Float_text p1, Float_text p2, Int_text m,
      Float_text c0, Float_text c1, Float_text c2]"
    by (cases e) (auto simp: csv_line_def)
  then have "parse_row (zip header line) = Inl KeyError"
    using h by (simp add: csv_header_def parse_row_def float_field_def row_get_def)
  then show ?thesis by (simp add: dict_reader_def)
qed

text \<open>
  C1 as stated fails: the records the exporter writes name the coordinates \<open>x\<close>, \<open>y\<close>,
  \<open>z\<close>. Read back through the header, the first of them has no field \<open>px\<close>, and the run
  ends with \<^verbatim>\<open>KeyError\<close> after offboard mode has started, before any waypoint is sent.
\<close>

theorem exported_records_are_rejected:
  "export_csv [([(0, 0, 0), (0, 0, 15)], 10)] =
     Inr (csv_header,
          [[Int_text 0, Float_text 0, Float_text 0, Float_text 0, Int_text 10,
            Float_text 1, Float_text 0, Float_text 0],
           [Int_text 1, Float_text 0, Float_text 0, Float_text 15, Int_text 10,
            Float_text 1, Float_text 0, Float_text 0]]) \<and>
   parse_waypoints (dict_reader (csv_header,
          [[Int_text 0, Float_text 0, Float_text 0, Float_text 0, Int_text 10,
            Float_text 1, Float_text 0, Float_text 0],
           [Int_text 1, Float_text 0, Float_text 0, Float_text 15, Int_text 10,
            Float_text 1, Float_text 0, Float_text 0]])) = Inl KeyError \<and>
   run obedient ''udp://:14540'' (dict_reader (csv_header,
          [[Int_text 0, Float_text 0, Float_text 0, Float_text 0, Int_text 10,
            Float_text 1, Float_text 0, Float_text 0],
           [Int_text 1, Float_text 0, Float_text 0, Float_text 15, Int_text 10,
            Float_text 1, Float_text 0, Float_text 0]])) =
     (Raised KeyError,
      [Call (Connect ''udp://:14540''), Say ''-- Waiting for drone to connect...'',
       Say ''-- Connected to drone!'',
       Say ''-- Waiting for drone to have a global position estimate...'',
       Say ''-- Global position estimate OK'', Say ''-- Arming'', Call Arm,
       Say ''-- Setting initial setpoint'', Call (Set_position_ned 0 0 0 0),
       Say ''-- Starting offboard'', Call Offboard_start])"
  by (simp add: export_csv_def mode_colors_def csv_line_def csv_header_def dict_reader_def exec_defs)

subsection \<open>The tracing color\<close>

text \<open>
  C2, as amended. In a run that reaches its end, the matrices pushed are, in order, one
  for every waypoint in the tracing mode whose place \<open>j\<close> in the list is a multiple of 10,
  and its color is \<open>interpolate_color j n\<close> where \<open>n\<close> is the number of all waypoints of the
  list.
\<close>

theorem tracing_color_from_list_position:
  assumes "run d a rows = (Returned, tr)"
  shows "\<exists>wps. parse_waypoints rows = Inr wps \<and>
     map Inr (pushed_matrices tr) =
       [map_sum id light_matrix (interpolate_color (int j) (int (length wps))).
          (j, w) \<leftarrow> enumerate 0 wps, mode_code w = 50 \<and> j mod 10 = 0]"
  using run_returned [OF assms] by blast

lemma interpolate_color_0_12: "interpolate_color 0 12 = Inr (1, 0, 0)"
  by (simp add: interpolate_color_def RAINBOW_COLORS_def py_int_def py_index_def
        scale_to_max_def Let_def)

lemma interpolate_color_10_12: "interpolate_color 10 12 = Inr (0, 3 / 8, 1)"
  by (simp add: interpolate_color_def RAINBOW_COLORS_def py_int_def py_index_def
        scale_to_max_def Let_def)

lemma interpolate_color_10_11: "interpolate_color 10 11 = Inr (0, 0, 1)"
  by (simp add: interpolate_color_def RAINBOW_COLORS_def py_int_def py_index_def
        scale_to_max_def Let_def)

lemma tracing_run:
  "fst (run obedient ''udp://:14540'' tracing_rows) = Returned \<and>
   pushed_matrices (snd (run obedient ''udp://:14540'' tracing_rows)) =
     [light_matrix (1, 0, 0), light_matrix (0, 3 / 8, 1)]"
  by (simp add: tracing_rows_def exec_defs interpolate_color_0_12 interpolate_color_10_12)

lemma tracing_parse:
  "parse_waypoints tracing_rows =
     Inr [(0, 0, 0, 0, 50), (1, 0, 0, 1, 50), (2, 0, 0, 2, 50), (3, 0, 0, 3, 50),
          (4, 0, 0, 4, 50), (5, 0, 0, 5, 50), (6, 0, 0, 6, 50), (7, 0, 0, 7, 50),
          (8, 0, 0, 8, 50), (9, 0, 0, 9, 50), (10, 0, 0, 10, 50), (11, 0, 0, 11, 60)]"
  by (simp add: tracing_rows_def exec_defs)

theorem tracing_color_from_list_position_witness:
  "run obedient ''udp://:14540'' tracing_rows =
     (Returned, snd (run obedient ''udp://:14540'' tracing_rows)) \<and>
   map Inr (pushed_matrices (snd (run obedient ''udp://:14540'' tracing_rows))) =
     [map_sum id light_matrix (interpolate_color 0 12) :: py_error + int list list,
      map_sum id light_matrix (interpolate_color 10 12)]"
proof -
  have r: "run obedient ''udp://:14540'' tracing_rows =
     (Returned, snd (run obedient ''udp://:14540'' tracing_rows))"
    using tracing_run by (simp add: prod_eq_iff)
  show ?thesis
    using r tracing_color_from_list_position [OF r]
    by (simp add: tracing_parse mode_code_def)
qed

text \<open>
  C2 as stated fails: with eleven tracing waypoints followed by one waypoint in mode 60,
  the color pushed at place 10 is \<open>interpolate_color 10 12\<close>, which is \<open>(0, 3/8, 1)\<close>; with
  the number of tracing points as second argument it would be \<open>(0, 0, 1)\<close>.
\<close>

theorem tracing_color_total_counterexample:
  "pushed_matrices (snd (run obedient ''udp://:14540'' tracing_rows)) ! 1 =
     light_matrix (0, 3 / 8, 1) \<and>
   length (filter (\<lambda>r. int_field r ''mode'' = Inr 50) tracing_rows) = 11 \<and>
   map_sum id light_matrix (interpolate_color 10 11) = Inr (light_matrix (0, 0, 1)) \<and>
   light_matrix (0, 3 / 8, 1) \<noteq> light_matrix (0, 0, 1)"
  by (simp add: tracing_run interpolate_color_10_11)
    (simp add: tracing_rows_def waypoint_row_def int_field_def row_get_def
      light_matrix_def color_int_def py_int_def NUM_STRIPS_def LED_STRIP_LENGTH_def)

subsection \<open>Failures of the vehicle\<close>

text \<open>
  C7. When the vehicle is ready and answers the offboard start with \<^verbatim>\<open>OffboardError\<close>, the
  run reports it, disarms and ends there: the events after the start are the report and
  the disarm command, the only setpoint sent is the initial one, and neither the land nor
  the offboard stop command is sent, whatever the records are.
\<close>

theorem offboard_start_failure_aborts:
  assumes "prepare d a = (None, tr0)"
    and "answer d (tr0 @ [Say ''-- Starting offboard'']) Offboard_start = Some OffboardError"
  shows "snd (run d a rows) =
           tr0 @ [Say ''-- Starting offboard'', Call Offboard_start,
                  Say_error ''^^ Starting offboard mode failed with error code'' OffboardError,
                  Say ''-- Disarming'', Call Disarm] \<and>
         (fst (run d a rows) = Returned_early \<or> (\<exists>e. fst (run d a rows) = Raised e)) \<and>
         commanded_positions (snd (run d a rows)) = [(0, 0, 0, 0)] \<and>
         Call Land \<notin> set (snd (run d a rows)) \<and>
         Call Offboard_stop \<notin> set (snd (run d a rows))"
proof -
  have tr: "snd (run d a rows) =
           tr0 @ [Say ''-- Starting offboard'', Call Offboard_start,
                  Say_error ''^^ Starting offboard mode failed with error code'' OffboardError,
                  Say ''-- Disarming'', Call Disarm]"
    and out: "fst (run d a rows) = Returned_early \<or> (\<exists>e. fst (run d a rows) = Raised e)"
    using assms by (auto simp: run_def fly_def call_def split: option.splits)
  show ?thesis
    using tr out prepare_sends [OF assms(1)] by (simp add: commanded_positions_append)
qed


theorem offboard_start_failure_aborts_witness:
  "prepare (refusing Offboard_start OffboardError) ''udp://:14540'' =
     (None,
      [Call (Connect ''udp://:14540''), Say ''-- Waiting for drone to connect...'',
       Say ''-- Connected to drone!'',
       Say ''-- Waiting for drone to have a global position estimate...'',
       Say ''-- Global position estimate OK'', Say ''-- Arming'', Call Arm,
       Say ''-- Setting initial setpoint'', Call (Set_position_ned 0 0 0 0)]) \<and>
   snd (run (refusing Offboard_start OffboardError) ''udp://:14540'' [waypoint_row 0 1 2 3 10]) =
      [Call (Connect ''udp://:14540''), Say ''-- Waiting for drone to connect...'',
       Say ''-- Connected to drone!'',
       Say ''-- Waiting for drone to have a global position estimate...'',
       Say ''-- Global position estimate OK'', Say ''-- Arming'', Call Arm,
       Say ''-- Setting initial setpoint'', Call (Set_position_ned 0 0 0 0),
       Say ''-- Starting offboard'', Call Offboard_start,
       Say_error ''^^ Starting offboard mode failed with error code'' OffboardError,
       Say ''-- Disarming'', Call Disarm] \<and>
   commanded_positions
     (snd (run (refusing Offboard_start OffboardError) ''udp://:14540'' [waypoint_row 0 1 2 3 10]))
     = [(0, 0, 0, 0)]"
proof -
  let ?d = "refusing Offboard_start OffboardError"
  let ?tr0 = "[Call (Connect ''udp://:14540''), Say ''-- Waiting for drone to connect...'',
       Say ''-- Connected to drone!'',
       Say ''-- Waiting for drone to have a global position estimate...'',
       Say ''-- Global position estimate OK'', Say ''-- Arming'', Call Arm,
       Say ''-- Setting initial setpoint'', Call (Set_position_ned 0 0 0 0)]"
  have p: "prepare ?d ''udp://:14540'' = (None, ?tr0)"
    by (simp add: prepare_def call_def refusing_def obedient_def)
  have a: "answer ?d (?tr0 @ [Say ''-- Starting offboard'']) Offboard_start = Some OffboardError"
    by (simp add: refusing_def obedient_def)
  show ?thesis
    using p offboard_start_failure_aborts [OF p a, of "[waypoint_row 0 1 2 3 10]"]
    by simp
qed


lemma interpolate_color_0_3: "interpolate_color 0 3 = Inr (1, 0, 0)"
  by (simp add: interpolate_color_def RAINBOW_COLORS_def py_int_def py_index_def
        scale_to_max_def Let_def)

text \<open>
  C3. The claim: no failure of an indicator command ends the mission. The matrix update
  is inside a \<^verbatim>\<open>try\<close> that catches \<^verbatim>\<open>LightsError\<close>; the command that returns the lights
  to the flight mode is awaited without one. With a tracing waypoint followed by two
  waypoints in mode 60 and a vehicle that refuses that command, the run ends with
  \<^verbatim>\<open>LightsError\<close> at the mode change: the last two setpoints, the landing and the
  disarming are never sent.
\<close>

theorem follow_flight_mode_failure_aborts:
  "run (refusing (Follow_flight_mode True) LightsError) ''udp://:14540''
     [waypoint_row 0 1 2 3 50, waypoint_row 1 4 5 6 60, waypoint_row 2 7 8 9 60] =
   (Raised LightsError,
    [Call (Connect ''udp://:14540''), Say ''-- Waiting for drone to connect...'',
     Say ''-- Connected to drone!'',
     Say ''-- Waiting for drone to have a global position estimate...'',
     Say ''-- Global position estimate OK'', Say ''-- Arming'', Call Arm,
     Say ''-- Setting initial setpoint'', Call (Set_position_ned 0 0 0 0),
     Say ''-- Starting offboard'', Call Offboard_start,
     Say ''-- Performing trajectory'', Say ''-- Starting trajectory'',
     Say_mode 50 ''Tracing'', Say ''-- Turning on tracing lights'',
     Call (Set_matrix (light_matrix (1, 0, 0))),
     Call (Set_position_ned 1 2 3 0), Sleep (1 / 10),
     Say_mode 60 ''Holding at end point'', Say ''-- Lights to follow flight mode'',
     Call (Follow_flight_mode True)])"
  by (simp add: exec_defs interpolate_color_0_3)

text \<open>
  The sibling path does what the claim says: a matrix update answered with
  \<^verbatim>\<open>LightsError\<close> is reported, and the waypoint goes on without an exception.
\<close>

lemma set_matrix_failure_is_reported:
  assumes "interpolate_color (int i) (int n) = Inr rgb"
    and "answer d (trace st) (Set_matrix (light_matrix rgb)) = Some LightsError"
    and "i mod 10 = 0"
  shows "light_update d n i 50 st =
     (None, st\<lparr>trace := trace st @ [Call (Set_matrix (light_matrix rgb)),
                                     Say_error ''^^ Setting lights failed'' LightsError]\<rparr>)"
  using assms by (simp add: light_update_def call_def)

end
